theory Spec2Isabelle
  imports Main "HOL-Library.Sublist"
begin

section \<open>Data model\<close>

text \<open>
  The three tables created at start-up (\<^verbatim>\<open>server.js\<close>, lines 79 to 81). Every
  \<^verbatim>\<open>varchar\<close> column except \<^verbatim>\<open>analytics.hash\<close> is nullable, so a value read from
  one of them is a JavaScript string or \<^verbatim>\<open>null\<close>: a \<open>string option\<close>.
\<close>

record section_row =
  sec_id :: int
  sec_title :: "string option"

record project_row =
  proj_id :: int
  proj_section :: int
  proj_title :: "string option"
  proj_url :: "string option"
  proj_repo :: "string option"

record analytics_row =
  a_hash :: string
  a_url :: string

record store =
  sections_tbl :: "section_row list"
  projects_tbl :: "project_row list"
  analytics_tbl :: "analytics_row list"

text \<open>
  The fields of an Express request that the handler reads. \<^verbatim>\<open>req.hostname\<close> is
  undefined (\<open>None\<close>) for a request without a \<^verbatim>\<open>Host\<close> header.
\<close>

record request =
  req_ip :: string
  req_hostname :: "string option"
  req_path :: string

text \<open>
  A document of the HTML parser, as far as the handler decides it: the text it was parsed
  from, and the markup handed to \<^verbatim>\<open>set_content\<close> on its \<^verbatim>\<open>#sections\<close> element (\<open>None\<close>
  before any call). The library parses that markup into nodes of its own and serialises
  the tree again; neither is computed here, so the markup handed over is kept as it is
  passed and a document stands for its own serialisation.
\<close>

record document =
  template :: string
  injected :: "string option"

text \<open>
  What the handler takes from its platform: \<^verbatim>\<open>path.join\<close>, \<^verbatim>\<open>fs.existsSync\<close>,
  \<^verbatim>\<open>fs.readFileSync\<close> (\<open>None\<close> when it throws), and whether \<^verbatim>\<open>querySelector("#sections")\<close>
  finds an element in the parse of a text.
\<close>

record world =
  path_join :: "string \<Rightarrow> string \<Rightarrow> string"
  existsSync :: "string \<Rightarrow> bool"
  readFileSync :: "string \<Rightarrow> string option"
  has_sections :: "string \<Rightarrow> bool"

text \<open>The three statements the handler sends to the database.\<close>

datatype query =
  Insert_ignore_analytics string string
| Select_sections
| Select_projects int

text \<open>The arguments \<^verbatim>\<open>(error, rows)\<close> of a query callback.\<close>

datatype 'a result = Failed | Rows "'a list"

text \<open>
  The errors of this program: a \<^verbatim>\<open>TypeError\<close> of the language, an error of the file
  system, and the error of a failed statement that the database driver throws itself
  when the statement was sent without a callback.
\<close>

datatype js_error = TypeError | SystemError | QueryError

text \<open>
  The body of a response: none (\<^verbatim>\<open>res.end()\<close>), or \<^verbatim>\<open>document.innerHTML\<close> of a
  document.
\<close>

datatype body = No_body | InnerHTML document

text \<open>
  How the handling of one request ends: a response was sent (status, content type, body),
  the request was handed to \<^verbatim>\<open>express.static\<close> for a directory, an exception left the
  middleware synchronously, an exception left a database callback, the continuation of
  \<^verbatim>\<open>Promise.all\<close> threw, or the request is still waiting for its callbacks.
\<close>

datatype outcome =
  Sent nat "string option" body
| Static string
| Thrown js_error
| Uncaught js_error
| Rejected js_error
| Pending

text \<open>
  Whether the request gets a response while the process lives: from this code, from
  \<^verbatim>\<open>express.static\<close> (or from Express behind it), or from the error handler of Express,
  which answers an exception thrown in the middleware with status 500.
\<close>

fun responded :: "outcome \<Rightarrow> bool" where
  "responded (Sent status ctype body) = True"
| "responded (Static dir) = True"
| "responded (Thrown e) = True"
| "responded other = False"

section \<open>JavaScript primitives\<close>

text \<open>Truthiness of a string or \<^verbatim>\<open>null\<close>, and its text inside a template literal.\<close>

definition truthy :: "string option \<Rightarrow> bool" where
  "truthy v = (case v of None \<Rightarrow> False | Some s \<Rightarrow> s \<noteq> [])"

definition interp :: "string option \<Rightarrow> string" where
  "interp v = (case v of None \<Rightarrow> ''null'' | Some s \<Rightarrow> s)"

text \<open>\<^verbatim>\<open>String.prototype.split\<close> with a separator of one character.\<close>

fun js_split :: "char \<Rightarrow> string \<Rightarrow> string list" where
  "js_split sep [] = [[]]"
| "js_split sep (c # cs) =
     (if c = sep then [] # js_split sep cs
      else (case js_split sep cs of
              [] \<Rightarrow> [[c]]
            | piece # pieces \<Rightarrow> (c # piece) # pieces))"

text \<open>\<^verbatim>\<open>Array.prototype.join\<close> on an array of strings.\<close>

fun js_join :: "string \<Rightarrow> string list \<Rightarrow> string" where
  "js_join sep [] = []"
| "js_join sep [x] = x"
| "js_join sep (x # y # ys) = x @ sep @ js_join sep (y # ys)"

text \<open>
  \<^verbatim>\<open>Promise.all\<close> over promises that are pending (\<open>None\<close>) or resolved: the values in
  array order once every promise is resolved.
\<close>

fun promise_all :: "'a option list \<Rightarrow> 'a list option" where
  "promise_all [] = Some []"
| "promise_all (None # ps) = None"
| "promise_all (Some v # ps) = map_option ((#) v) (promise_all ps)"

section \<open>The database\<close>

text \<open>
  \<^verbatim>\<open>insert ignore\<close> skips a row exactly when it would repeat a value of a primary key
  or of a unique index of the table; any other row is stored. \<open>keys\<close> lists the table's
  primary key and unique indexes.
\<close>

definition insert_ignore :: "('r \<Rightarrow> 'k) list \<Rightarrow> 'r \<Rightarrow> 'r list \<Rightarrow> 'r list" where
  "insert_ignore keys r tbl =
     (if \<exists>k \<in> set keys. \<exists>r' \<in> set tbl. k r' = k r then tbl else tbl @ [r])"

text \<open>
  Line 81: \<^verbatim>\<open>create table if not exists analytics (hash varchar(256) not null,
  url varchar(128))\<close>. The statement declares no primary key and no unique index.
\<close>

definition analytics_keys :: "(analytics_row \<Rightarrow> string) list" where
  "analytics_keys = []"

text \<open>
  \<open>fails\<close> tells which statements end in an error. The insert is sent without a
  callback (line 96) and the connection has no error listener, so when it fails the
  driver throws the error itself: \<open>Inl\<close>. Otherwise the store changes; under
  \<^verbatim>\<open>ignore\<close> a value longer than its column is cut to the column's width.
\<close>

definition exec_insert :: "(query \<Rightarrow> bool) \<Rightarrow> query \<Rightarrow> store \<Rightarrow> js_error + store" where
  "exec_insert fails q st =
     (case q of
        Insert_ignore_analytics h u \<Rightarrow>
          (if fails q then Inl QueryError
           else Inr (st\<lparr>analytics_tbl :=
                  insert_ignore analytics_keys \<lparr>a_hash = take 256 h, a_url = take 128 u\<rparr>
                    (analytics_tbl st)\<rparr>))
      | _ \<Rightarrow> Inr st)"

definition select_sections :: "(query \<Rightarrow> bool) \<Rightarrow> store \<Rightarrow> section_row result" where
  "select_sections fails st =
     (if fails Select_sections then Failed else Rows (sections_tbl st))"

definition select_projects :: "(query \<Rightarrow> bool) \<Rightarrow> store \<Rightarrow> int \<Rightarrow> project_row result" where
  "select_projects fails st i =
     (if fails (Select_projects i) then Failed
      else Rows (filter (\<lambda>p. proj_section p = i) (projects_tbl st)))"

section \<open>The request handler\<close>

subsection \<open>Analytics (lines 95 to 97)\<close>

text \<open>
  The statement issued, the store afterwards, and the error the driver throws for it
  after the handler has returned, if any. \<open>hostname\<close> is the defined
  \<^verbatim>\<open>req.hostname\<close>.
\<close>

definition record_visit ::
  "(query \<Rightarrow> bool) \<Rightarrow> request \<Rightarrow> string \<Rightarrow> store
     \<Rightarrow> query list \<times> store \<times> js_error option" where
  "record_visit fails req hostname st =
     (if req_ip req \<noteq> ''::1'' then
        (let q = Insert_ignore_analytics
                   (req_ip req @ ''@'' @ hostname @ req_path req)
                   (hostname @ req_path req)
         in (case exec_insert fails q st of
               Inl e \<Rightarrow> ([q], st, Some e)
             | Inr st' \<Rightarrow> ([q], st', None)))
      else ([], st, None))"

subsection \<open>Rendering (lines 109 to 126)\<close>

definition heading :: "section_row \<Rightarrow> string" where
  "heading section = ''<h2>'' @ interp (sec_title section) @ ''</h2>''"

definition project_item :: "project_row \<Rightarrow> string" where
  "project_item project =
     (let title = ''<span>'' @ interp (proj_title project) @ ''</span>'';
          repo = (if truthy (proj_repo project)
                  then ''<a class=\"github\" href=\"'' @ interp (proj_repo project)
                         @ ''\" target=\"_blank\">''
                  else []);
          url = (if truthy (proj_url project)
                 then ''<a class=\"link\" href=\"'' @ interp (proj_url project) @ ''\"></a>''
                 else [])
      in ''<li><div class=\"wrapper\">'' @ title @ repo @ url @ ''</div></li>'')"

text \<open>The \<^verbatim>\<open>for\<close> loop of lines 115 to 121, appending to \<^verbatim>\<open>html\<close>.\<close>

fun append_items :: "string \<Rightarrow> project_row list \<Rightarrow> string" where
  "append_items html [] = html"
| "append_items html (project # rest) = append_items (html @ project_item project) rest"

text \<open>The body of the projects callback once \<^verbatim>\<open>projects\<close> is an array.\<close>

definition render_fragment :: "string \<Rightarrow> project_row list \<Rightarrow> string" where
  "render_fragment html projects =
     (if length projects \<noteq> 0
      then append_items (html @ ''<ul class=\"projects\">'') projects @ ''</ul>''
      else html)"

text \<open>
  The projects callback: on a failed query \<^verbatim>\<open>projects\<close> is undefined and reading
  \<^verbatim>\<open>projects.length\<close> throws; otherwise the promise is resolved with the fragment.
\<close>

definition projects_callback :: "string \<Rightarrow> project_row result \<Rightarrow> js_error + string" where
  "projects_callback html r =
     (case r of
        Failed \<Rightarrow> Inl TypeError
      | Rows projects \<Rightarrow> Inr (render_fragment html projects))"

text \<open>The fragment of one section against a store: what its promise resolves with.\<close>

definition section_fragment :: "store \<Rightarrow> section_row \<Rightarrow> string" where
  "section_fragment st section =
     render_fragment (heading section)
       (filter (\<lambda>p. proj_section p = sec_id section) (projects_tbl st))"

subsection \<open>Fan-out and fan-in (lines 107 to 134)\<close>

text \<open>
  The callback of the projects query of the section at position \<open>i\<close>.
\<close>

definition section_callback ::
  "(query \<Rightarrow> bool) \<Rightarrow> store \<Rightarrow> section_row list \<Rightarrow> nat \<Rightarrow> js_error + string" where
  "section_callback fails st secs i =
     projects_callback (heading (secs ! i)) (select_projects fails st (sec_id (secs ! i)))"

text \<open>
  The projects callbacks fire in the order \<open>order\<close> (positions in the section array). Each
  resolves the promise at its own position; a callback that throws ends the run. A
  position outside the array is no callback of this request and is skipped.
\<close>

fun settle ::
  "(nat \<Rightarrow> js_error + string) \<Rightarrow> nat list \<Rightarrow> string option list
     \<Rightarrow> js_error + string option list" where
  "settle cb [] slots = Inr slots"
| "settle cb (i # order) slots =
     (if i < length slots then
        (case cb i of
           Inl e \<Rightarrow> Inl e
         | Inr html \<Rightarrow> settle cb order (slots[i := Some html]))
      else settle cb order slots)"

text \<open>\<^verbatim>\<open>htmlParser.parse(html)\<close>: a fresh document.\<close>

definition parse :: "string \<Rightarrow> document" where
  "parse html = \<lparr>template = html, injected = None\<rparr>"

text \<open>
  \<^verbatim>\<open>sectionsElement.set_content(html)\<close>, where \<^verbatim>\<open>sectionsElement\<close> is what
  \<^verbatim>\<open>querySelector("#sections")\<close> gave for the document: on \<^verbatim>\<open>null\<close> the call throws.
\<close>

definition set_content :: "world \<Rightarrow> document \<Rightarrow> string \<Rightarrow> js_error + document" where
  "set_content w doc html =
     (if has_sections w (template doc)
      then Inr (doc\<lparr>injected := Some html\<rparr>)
      else Inl TypeError)"

text \<open>
  The root branch of \<^verbatim>\<open>staticHandler\<close>: the statements it issues, in order, and how the
  request ends.
\<close>

definition homepage ::
  "world \<Rightarrow> (query \<Rightarrow> bool) \<Rightarrow> nat list \<Rightarrow> store \<Rightarrow> string \<Rightarrow> query list \<times> outcome" where
  "homepage w fails order st dir =
     (case readFileSync w (path_join w dir ''index.html'') of
        None \<Rightarrow> ([], Thrown SystemError)
      | Some html \<Rightarrow>
          (let document = parse html in
           case select_sections fails st of
             Failed \<Rightarrow> ([Select_sections], Uncaught TypeError)
           | Rows secs \<Rightarrow>
               (Select_sections # map (\<lambda>section. Select_projects (sec_id section)) secs,
                case settle (section_callback fails st secs) order
                       (replicate (length secs) None) of
                  Inl e \<Rightarrow> Uncaught e
                | Inr slots \<Rightarrow>
                    (case promise_all slots of
                       None \<Rightarrow> Pending
                     | Some html \<Rightarrow>
                         (case set_content w document (js_join ''<br/>'' html) of
                            Inl e \<Rightarrow> Rejected e
                          | Inr document' \<Rightarrow>
                              Sent 200 (Some ''text/html'') (InnerHTML document'))))))"

text \<open>
  The same branch when the process exits before any callback runs: the template has been
  read and the sections query issued, and the request is left waiting.
\<close>

definition homepage_cut :: "world \<Rightarrow> string \<Rightarrow> query list \<times> outcome" where
  "homepage_cut w dir =
     (case readFileSync w (path_join w dir ''index.html'') of
        None \<Rightarrow> ([], Thrown SystemError)
      | Some html \<Rightarrow> ([Select_sections], Pending))"

text \<open>
  \<^verbatim>\<open>staticHandler\<close>; \<open>exits\<close> tells whether the driver throws for the analytics insert,
  which ends the process before the callback of any later statement.
\<close>

definition staticHandler ::
  "world \<Rightarrow> (query \<Rightarrow> bool) \<Rightarrow> nat list \<Rightarrow> store \<Rightarrow> request \<Rightarrow> bool \<Rightarrow> string
     \<Rightarrow> query list \<times> outcome" where
  "staticHandler w fails order st req exits dir =
     (if req_path req = ''/''
      then (if exits then homepage_cut w dir else homepage w fails order st dir)
      else ([], Static dir))"

subsection \<open>The middleware (lines 92 to 157)\<close>

text \<open>
  The statements issued, the store afterwards, how the request ends, and the error on
  which the process exits after the synchronous part of the handler, if any. On an
  undefined hostname line 93 throws before anything else happens. When the process exits,
  the outcome is what the request has got from the synchronous part.
\<close>

definition serve ::
  "world \<Rightarrow> (query \<Rightarrow> bool) \<Rightarrow> nat list \<Rightarrow> store \<Rightarrow> request
     \<Rightarrow> query list \<times> store \<times> outcome \<times> js_error option" where
  "serve w fails order st req =
     (case req_hostname req of
        None \<Rightarrow> ([], st, Thrown TypeError, None)
      | Some hostname \<Rightarrow>
          (let domain = hd (js_split CHR ''.'' hostname);
               (logged, st', thrown) = record_visit fails req hostname st;
               (issued, out) =
                 (if domain = ''jessesolomon'' \<or> domain = ''localhost''
                  then staticHandler w fails order st' req (thrown \<noteq> None) ''public''
                  else (let appPath = path_join w ''apps'' domain
                        in if existsSync w appPath
                           then staticHandler w fails order st' req (thrown \<noteq> None) appPath
                           else ([], Sent 404 None No_body)))
           in (logged @ issued, st', out, thrown)))"

section \<open>Properties of markup\<close>

text \<open>
  The number of positions of a text at which a pattern starts, and texts without an
  opening angle bracket: fields are interpolated into the markup as they are, so counting
  tags in the result is meaningful for such fields only.
\<close>

fun count_sub :: "string \<Rightarrow> string \<Rightarrow> nat" where
  "count_sub pat [] = 0"
| "count_sub pat (c # cs) = (if prefix pat (c # cs) then 1 else 0) + count_sub pat cs"

definition markup_free :: "string \<Rightarrow> bool" where
  "markup_free s = (CHR ''<'' \<notin> set s)"

definition plain_project :: "project_row \<Rightarrow> bool" where
  "plain_project p =
     (markup_free (interp (proj_title p)) \<and> markup_free (interp (proj_repo p))
      \<and> markup_free (interp (proj_url p)))"

text \<open>The statements that write to the analytics table.\<close>

fun is_insert :: "query \<Rightarrow> bool" where
  "is_insert (Insert_ignore_analytics h u) = True"
| "is_insert q = False"

section \<open>Concrete inputs\<close>

definition no_faults :: "query \<Rightarrow> bool" where
  "no_faults q = False"

definition fixture_world :: world where
  "fixture_world =
     \<lparr>path_join = (\<lambda>a b. a @ ''/'' @ b),
      existsSync = (\<lambda>p. p = ''apps/blog''),
      readFileSync = (\<lambda>p. if p = ''public/index.html'' then Some ''<main id=\"sections\">old</main>''
                          else if p = ''apps/blog/index.html'' then Some ''<p>blog</p>''
                          else None),
      has_sections = (\<lambda>html. html = ''<main id=\"sections\">old</main>'')\<rparr>"

definition tools_store :: store where
  "tools_store =
     \<lparr>sections_tbl = [\<lparr>sec_id = 1, sec_title = Some ''Tools''\<rparr>],
      projects_tbl = [\<lparr>proj_id = 1, proj_section = 1, proj_title = Some ''Widget'',
                       proj_url = Some ''http://w'', proj_repo = None\<rparr>],
      analytics_tbl = []\<rparr>"

definition portfolio_store :: store where
  "portfolio_store =
     \<lparr>sections_tbl = [\<lparr>sec_id = 1, sec_title = Some ''Tools''\<rparr>,
                      \<lparr>sec_id = 2, sec_title = Some ''Papers''\<rparr>,
                      \<lparr>sec_id = 3, sec_title = Some ''Games''\<rparr>],
      projects_tbl = [\<lparr>proj_id = 1, proj_section = 3, proj_title = Some ''Pong'',
                       proj_url = Some ''http://p'', proj_repo = Some ''http://g''\<rparr>,
                      \<lparr>proj_id = 2, proj_section = 1, proj_title = Some ''Widget'',
                       proj_url = Some ''http://w'', proj_repo = None\<rparr>,
                      \<lparr>proj_id = 3, proj_section = 3, proj_title = Some ''Snake'',
                       proj_url = None, proj_repo = Some []\<rparr>],
      analytics_tbl = []\<rparr>"

definition pong :: project_row where
  "pong = \<lparr>proj_id = 1, proj_section = 3, proj_title = Some ''Pong'',
            proj_url = Some ''http://p'', proj_repo = Some ''http://g''\<rparr>"

definition snake :: project_row where
  "snake = \<lparr>proj_id = 3, proj_section = 3, proj_title = Some ''Snake'',
             proj_url = None, proj_repo = Some []\<rparr>"

definition visit :: request where
  "visit = \<lparr>req_ip = ''203.0.113.7'', req_hostname = Some ''jessesolomon.dev'',
             req_path = ''/''\<rparr>"

definition own_visit :: request where
  "own_visit = \<lparr>req_ip = ''::1'', req_hostname = Some ''localhost'', req_path = ''/style.css''\<rparr>"

definition mapped_visit :: request where
  "mapped_visit = \<lparr>req_ip = ''::ffff:127.0.0.1'', req_hostname = Some ''localhost'',
                    req_path = ''/style.css''\<rparr>"

definition hostless :: request where
  "hostless = \<lparr>req_ip = ''203.0.113.7'', req_hostname = None, req_path = ''/''\<rparr>"

definition stray :: request where
  "stray = \<lparr>req_ip = ''203.0.113.7'', req_hostname = Some ''nosuch.example.com'',
             req_path = ''/''\<rparr>"

definition blog_visit :: request where
  "blog_visit = \<lparr>req_ip = ''203.0.113.7'', req_hostname = Some ''blog.example.com'',
                  req_path = ''/post.html''\<rparr>"

definition sections_down :: "query \<Rightarrow> bool" where
  "sections_down q = (q = Select_sections)"

definition projects_down :: "query \<Rightarrow> bool" where
  "projects_down q = (q = Select_projects 1)"


section \<open>Auxiliary lemmas\<close>


lemma js_split_not_Nil: "js_split sep s \<noteq> []"
  by (induction s) (auto split: list.splits)

lemma hd_js_split:
  "sep \<notin> set label \<Longrightarrow> rest = [] \<or> hd rest = sep \<Longrightarrow> hd (js_split sep (label @ rest)) = label"
proof (induction label)
  case Nil
  then show ?case by (cases rest) auto
next
  case (Cons c label)
  then show ?case by (auto split: list.splits simp: js_split_not_Nil)
qed

lemma promise_all_resolved: "promise_all (map (\<lambda>x. Some (f x)) xs) = Some (map f xs)"
  by (induction xs) simp_all

lemma settle_all_resolve:
  assumes "\<forall>i < length slots. cb i = Inr (f i)"
  shows "settle cb order slots =
           Inr (map (\<lambda>i. if i \<in> set order then Some (f i) else slots ! i) [0..<length slots])"
  using assms
proof (induction order arbitrary: slots)
  case Nil
  then show ?case by (simp add: map_nth)
next
  case (Cons i order)
  show ?case
  proof (cases "i < length slots")
    case True
    have "\<forall>j < length (slots[i := Some (f i)]). cb j = Inr (f j)" using Cons.prems by simp
    from Cons.IH[OF this] True Cons.prems show ?thesis
      by (auto simp: nth_list_update)
  next
    case False
    with Cons show ?thesis by auto
  qed
qed

lemma section_callback_ok:
  "\<forall>q. \<not> fails q \<Longrightarrow> section_callback fails st secs i = Inr (section_fragment st (secs ! i))"
  by (simp add: section_callback_def select_projects_def projects_callback_def section_fragment_def)

lemma settle_complete:
  assumes "\<forall>i < n. cb i = Inr (f i)" and "set order = {0..<n}"
  shows "settle cb order (replicate n None) = Inr (map (\<lambda>i. Some (f i)) [0..<n])"
proof -
  have "settle cb order (replicate n None) =
          Inr (map (\<lambda>i. if i \<in> set order then Some (f i) else replicate n None ! i)
                 [0..<length (replicate n (None :: string option))])"
    by (rule settle_all_resolve) (simp add: assms(1))
  moreover have "map (\<lambda>i. if i \<in> set order then Some (f i) else replicate n None ! i)
                 [0..<n] = map (\<lambda>i. Some (f i)) [0..<n]"
    by (rule map_cong) (simp_all add: assms(2))
  ultimately show ?thesis by simp
qed

lemma fan_in:
  assumes "\<forall>q. \<not> fails q" and "set order = {0..<length secs}"
  shows "settle (section_callback fails st secs) order (replicate (length secs) None) =
           Inr (map (\<lambda>s. Some (section_fragment st s)) secs)"
proof -
  have "settle (section_callback fails st secs) order (replicate (length secs) None) =
          Inr (map (\<lambda>i. Some (section_fragment st (secs ! i))) [0..<length secs])"
    by (rule settle_complete) (simp_all add: assms section_callback_ok)
  also have "map (\<lambda>i. Some (section_fragment st (secs ! i))) [0..<length secs] =
          map (\<lambda>s. Some (section_fragment st s)) secs"
    by (rule nth_equalityI) simp_all
  finally show ?thesis .
qed

lemma count_sub_skip:
  "markup_free t \<Longrightarrow> count_sub (CHR ''<'' # pat) (t @ rest) = count_sub (CHR ''<'' # pat) rest"
  by (induction t) (auto simp: markup_free_def)

lemma project_item_unfold:
  "project_item p =
     ''<li><div class=\"wrapper\"><span>'' @ interp (proj_title p) @ ''</span>''
     @ (if truthy (proj_repo p)
        then ''<a class=\"github\" href=\"'' @ interp (proj_repo p) @ ''\" target=\"_blank\">''
        else [])
     @ (if truthy (proj_url p)
        then ''<a class=\"link\" href=\"'' @ interp (proj_url p) @ ''\"></a>''
        else [])
     @ ''</div></li>''"
  by (simp add: project_item_def Let_def)






lemma homepage_success:
  assumes "readFileSync w (path_join w dir ''index.html'') = Some html"
    and "has_sections w html"
    and "\<forall>q. \<not> fails q"
    and "set order = {0..<length (sections_tbl st)}"
  shows "homepage w fails order st dir =
           (Select_sections # map (\<lambda>s. Select_projects (sec_id s)) (sections_tbl st),
            Sent 200 (Some ''text/html'')
              (InnerHTML \<lparr>template = html,
                 injected =
                   Some (js_join ''<br/>'' (map (section_fragment st) (sections_tbl st)))\<rparr>))"
proof -
  have sel: "select_sections fails st = Rows (sections_tbl st)"
    using assms(3) by (simp add: select_sections_def)
  have fin: "settle (section_callback fails st (sections_tbl st)) order
               (replicate (length (sections_tbl st)) None) =
             Inr (map (\<lambda>s. Some (section_fragment st s)) (sections_tbl st))"
    using assms(3,4) by (rule fan_in)
  show ?thesis
    by (simp add: homepage_def assms(1,2) sel fin promise_all_resolved set_content_def parse_def)
qed

lemma fixture_public_template:
  "readFileSync fixture_world (path_join fixture_world ''public'' ''index.html'')
     = Some ''<main id=\"sections\">old</main>''"
  by (simp add: fixture_world_def)

lemma fixture_public_container:
  "has_sections fixture_world ''<main id=\"sections\">old</main>''"
  by (simp add: fixture_world_def)

lemma no_faults_never: "\<forall>q. \<not> no_faults q"
  by (simp add: no_faults_def)

lemma truthy_Some: "truthy (Some r) = (r \<noteq> [])"
  by (simp add: truthy_def)

lemma interp_Some: "interp (Some r) = r"
  by (simp add: interp_def)

lemma record_visit_cases:
  "record_visit fails req hostname st =
     (if req_ip req = ''::1'' then ([], st, None)
      else if fails (Insert_ignore_analytics (req_ip req @ ''@'' @ hostname @ req_path req)
                       (hostname @ req_path req))
      then ([Insert_ignore_analytics (req_ip req @ ''@'' @ hostname @ req_path req)
               (hostname @ req_path req)], st, Some QueryError)
      else ([Insert_ignore_analytics (req_ip req @ ''@'' @ hostname @ req_path req)
               (hostname @ req_path req)],
            st\<lparr>analytics_tbl := analytics_tbl st @
                 [\<lparr>a_hash = take 256 (req_ip req @ ''@'' @ hostname @ req_path req),
                   a_url = take 128 (hostname @ req_path req)\<rparr>]\<rparr>,
            None))"
  by (simp add: record_visit_def Let_def exec_insert_def insert_ignore_def analytics_keys_def)

lemma record_visit_keeps_content:
  "sections_tbl (fst (snd (record_visit fails req hostname st))) = sections_tbl st"
  "projects_tbl (fst (snd (record_visit fails req hostname st))) = projects_tbl st"
  by (simp_all add: record_visit_cases)

lemma homepage_reads_content_only:
  assumes "sections_tbl st' = sections_tbl st" and "projects_tbl st' = projects_tbl st"
  shows "homepage w fails order st' dir = homepage w fails order st dir"
proof -
  have cb: "section_callback fails st' = section_callback fails st"
    by (intro ext) (simp add: section_callback_def select_projects_def assms(2))
  show ?thesis
    unfolding homepage_def select_sections_def cb assms(1) ..
qed

lemma staticHandler_after_visit:
  "staticHandler w fails order (fst (snd (record_visit fails req hostname st))) req exits dir =
   staticHandler w fails order st req exits dir"
  unfolding staticHandler_def
  by (simp add: homepage_reads_content_only [OF record_visit_keeps_content])

lemma serve_unfold:
  assumes "req_hostname req = Some hostname"
  shows "serve w fails order st req =
     (let domain = hd (js_split CHR ''.'' hostname);
          visited = record_visit fails req hostname st;
          exits = (snd (snd visited) \<noteq> None);
          routed = (if domain = ''jessesolomon'' \<or> domain = ''localhost''
                    then staticHandler w fails order st req exits ''public''
                    else if existsSync w (path_join w ''apps'' domain)
                         then staticHandler w fails order st req exits (path_join w ''apps'' domain)
                         else ([], Sent 404 None No_body))
      in (fst visited @ fst routed, fst (snd visited), snd routed, snd (snd visited)))"
proof -
  define domain where "domain = hd (js_split CHR ''.'' hostname)"
  define reserved where "reserved \<longleftrightarrow> domain = ''jessesolomon'' \<or> domain = ''localhost''"
  obtain logged st' thrown where rv: "record_visit fails req hostname st = (logged, st', thrown)"
    by (cases "record_visit fails req hostname st")
  have st': "st' = fst (snd (record_visit fails req hostname st))" by (simp add: rv)
  have h: "staticHandler w fails order st' req exits dir = staticHandler w fails order st req exits dir"
    for dir exits
    unfolding st' by (rule staticHandler_after_visit)
  show ?thesis
    unfolding serve_def assms option.case Let_def rv domain_def [symmetric]
      reserved_def [symmetric] prod.case h
    by (simp only: case_prod_beta fst_conv snd_conv)
qed

lemma serve_hostless:
  "req_hostname req = None \<Longrightarrow> serve w fails order st req = ([], st, Thrown TypeError, None)"
  by (simp add: serve_def)

lemma homepage_issues_selects: "filter is_insert (fst (homepage w fails order st dir)) = []"
proof -
  have "filter is_insert (map (\<lambda>section. Select_projects (sec_id section)) secs) = []"
    for secs :: "section_row list"
    by (induction secs) simp_all
  then show ?thesis
    by (simp add: homepage_def split: option.splits result.splits)
qed

lemma staticHandler_issues_selects:
  "filter is_insert (fst (staticHandler w fails order st req exits dir)) = []"
  by (simp add: staticHandler_def homepage_issues_selects homepage_cut_def split: option.splits)

lemma serve_outcome:
  assumes "req_hostname req = Some hostname"
  shows "fst (snd (snd (serve w fails order st req))) =
     (let domain = hd (js_split CHR ''.'' hostname);
          exits = (snd (snd (record_visit fails req hostname st)) \<noteq> None)
      in if domain = ''jessesolomon'' \<or> domain = ''localhost''
         then snd (staticHandler w fails order st req exits ''public'')
         else if existsSync w (path_join w ''apps'' domain)
              then snd (staticHandler w fails order st req exits (path_join w ''apps'' domain))
              else Sent 404 None No_body)"
  unfolding serve_unfold [OF assms] Let_def by (simp only: fst_conv snd_conv if_distrib [of snd])

lemma serve_store:
  "req_hostname req = Some hostname \<Longrightarrow>
   fst (snd (serve w fails order st req)) = fst (snd (record_visit fails req hostname st))"
  by (simp only: serve_unfold Let_def fst_conv snd_conv)

lemma serve_exit:
  "req_hostname req = Some hostname \<Longrightarrow>
   snd (snd (snd (serve w fails order st req))) = snd (snd (record_visit fails req hostname st))"
  by (simp only: serve_unfold Let_def fst_conv snd_conv)

lemma serve_inserts:
  assumes "req_hostname req = Some hostname"
  shows "filter is_insert (fst (serve w fails order st req)) =
         filter is_insert (fst (record_visit fails req hostname st))"
  unfolding serve_unfold [OF assms] Let_def fst_conv filter_append
  by (simp only: if_distrib [of fst] if_distrib [of "filter is_insert"]
        staticHandler_issues_selects fst_conv filter.simps if_cancel append_Nil2)

lemma serve_first:
  assumes "req_hostname req = Some hostname"
  shows "\<exists>issued. fst (serve w fails order st req) =
           fst (record_visit fails req hostname st) @ issued"
  unfolding serve_unfold [OF assms] Let_def fst_conv by blast

lemma settle_throws:
  assumes "\<forall>j e. cb j = Inl e \<longrightarrow> e = e0"
    and "i \<in> set order" and "i < length slots" and "cb i = Inl e0"
  shows "settle cb order slots = Inl e0"
  using assms(2,3)
proof (induction order arbitrary: slots)
  case Nil
  then show ?case by simp
next
  case (Cons j order)
  show ?case
  proof (cases "j < length slots")
    case False
    with Cons.prems have "i \<in> set order" by auto
    with Cons.IH Cons.prems(2) False show ?thesis by simp
  next
    case True
    show ?thesis
    proof (cases "cb j")
      case (Inl e)
      with assms(1) have "e = e0" by blast
      with Inl True show ?thesis by simp
    next
      case (Inr html)
      with assms(4) have "i \<noteq> j" by auto
      with Cons.prems have "i \<in> set order" by simp
      moreover have "i < length (slots[j := Some html])" using Cons.prems(2) by simp
      ultimately have "settle cb order (slots[j := Some html]) = Inl e0" by (rule Cons.IH)
      with Inr True show ?thesis by simp
    qed
  qed
qed

lemma section_callback_error: "section_callback fails st secs j = Inl e \<Longrightarrow> e = TypeError"
  by (simp add: section_callback_def projects_callback_def split: result.splits)

lemma section_callback_failed:
  "fails (Select_projects (sec_id (secs ! i))) \<Longrightarrow> section_callback fails st secs i = Inl TypeError"
  by (simp add: section_callback_def projects_callback_def select_projects_def)

lemma homepage_sections_failed:
  assumes "readFileSync w (path_join w dir ''index.html'') = Some html"
    and "fails Select_sections"
  shows "homepage w fails order st dir = ([Select_sections], Uncaught TypeError)"
  by (simp add: homepage_def assms select_sections_def)

lemma homepage_projects_failed:
  assumes "readFileSync w (path_join w dir ''index.html'') = Some html"
    and "\<not> fails Select_sections"
    and "s \<in> set (sections_tbl st)" and "fails (Select_projects (sec_id s))"
    and "set order = {0..<length (sections_tbl st)}"
  shows "homepage w fails order st dir =
           (Select_sections # map (\<lambda>s. Select_projects (sec_id s)) (sections_tbl st),
            Uncaught TypeError)"
proof -
  obtain i where i: "i < length (sections_tbl st)" and s: "sections_tbl st ! i = s"
    using assms(3) by (auto simp: in_set_conv_nth)
  have sel: "select_sections fails st = Rows (sections_tbl st)"
    using assms(2) by (simp add: select_sections_def)
  have "settle (section_callback fails st (sections_tbl st)) order
          (replicate (length (sections_tbl st)) None) = Inl TypeError"
  proof (rule settle_throws)
    show "\<forall>j e. section_callback fails st (sections_tbl st) j = Inl e \<longrightarrow> e = TypeError"
      by (blast dest: section_callback_error)
    show "i \<in> set order" using i assms(5) by simp
    show "i < length (replicate (length (sections_tbl st)) (None :: string option))"
      using i by simp
    show "section_callback fails st (sections_tbl st) i = Inl TypeError"
      using assms(4) s by (simp add: section_callback_failed)
  qed
  then show ?thesis
    by (simp add: homepage_def assms(1) sel)
qed

lemma insert_ignore_unique_key:
  "k \<in> set keys \<Longrightarrow> r' \<in> set tbl \<Longrightarrow> k r' = k r \<Longrightarrow> insert_ignore keys r tbl = tbl"
  by (auto simp: insert_ignore_def)

lemma homepage_no_container:
  assumes "readFileSync w (path_join w dir ''index.html'') = Some html"
    and "\<not> has_sections w html"
    and "\<forall>q. \<not> fails q"
    and "set order = {0..<length (sections_tbl st)}"
  shows "homepage w fails order st dir =
           (Select_sections # map (\<lambda>s. Select_projects (sec_id s)) (sections_tbl st),
            Rejected TypeError)"
proof -
  have sel: "select_sections fails st = Rows (sections_tbl st)"
    using assms(3) by (simp add: select_sections_def)
  have fin: "settle (section_callback fails st (sections_tbl st)) order
               (replicate (length (sections_tbl st)) None) =
             Inr (map (\<lambda>s. Some (section_fragment st s)) (sections_tbl st))"
    using assms(3,4) by (rule fan_in)
  show ?thesis
    by (simp add: homepage_def assms(1,2) sel fin promise_all_resolved set_content_def parse_def)
qed

lemma failed_insert_exits:
  assumes "req_hostname req = Some hostname" and "req_ip req \<noteq> ''::1''"
    and "fails (Insert_ignore_analytics (req_ip req @ ''@'' @ hostname @ req_path req)
                  (hostname @ req_path req))"
    and "hd (js_split CHR ''.'' hostname) = ''jessesolomon''
         \<or> hd (js_split CHR ''.'' hostname) = ''localhost''"
    and "req_path req = ''/''"
    and "readFileSync w (path_join w ''public'' ''index.html'') = Some html"
  shows "serve w fails order st req =
           ([Insert_ignore_analytics (req_ip req @ ''@'' @ hostname @ req_path req)
               (hostname @ req_path req), Select_sections],
            st, Pending, Some QueryError)"
  unfolding serve_unfold [OF assms(1)] Let_def
  using assms(2-6) by (simp add: record_visit_cases staticHandler_def homepage_cut_def)

section \<open>The claims\<close>

text \<open>
  C1. When the template is readable and has its container, and no query fails, then for
  every order in which the callbacks of the projects queries fire (each once) the
  statements issued are the sections query followed by one projects query per section,
  and the composer hands to \<^verbatim>\<open>set_content\<close> on the container the fragments of the
  sections joined by \<^verbatim>\<open><br/>\<close> in the order of the sections query, then responds with
  200, \<^verbatim>\<open>text/html\<close> and \<^verbatim>\<open>innerHTML\<close> of that document. For no sections the markup
  handed over is the empty string.
\<close>

theorem homepage_joins_in_section_order:
  assumes "readFileSync w (path_join w dir ''index.html'') = Some html"
    and "has_sections w html"
    and "\<forall>q. \<not> fails q"
    and "distinct order" and "set order = {0..<length (sections_tbl st)}"
  shows "homepage w fails order st dir =
           (Select_sections # map (\<lambda>s. Select_projects (sec_id s)) (sections_tbl st),
            Sent 200 (Some ''text/html'')
              (InnerHTML \<lparr>template = html,
                 injected =
                   Some (js_join ''<br/>'' (map (section_fragment st) (sections_tbl st)))\<rparr>))
         \<and> (sections_tbl st = [] \<longrightarrow>
              js_join ''<br/>'' (map (section_fragment st) (sections_tbl st)) = [])"
  using homepage_success [OF assms(1,2,3,5)] by simp

theorem homepage_joins_in_section_order_witness:
  "readFileSync fixture_world (path_join fixture_world ''public'' ''index.html'')
     = Some ''<main id=\"sections\">old</main>''
   \<and> has_sections fixture_world ''<main id=\"sections\">old</main>''
   \<and> (\<forall>q. \<not> no_faults q)
   \<and> distinct [2, 0, 1 :: nat]
   \<and> set [2, 0, 1 :: nat] = {0..<length (sections_tbl portfolio_store)}
   \<and> homepage fixture_world no_faults [2, 0, 1] portfolio_store ''public'' =
       ([Select_sections, Select_projects 1, Select_projects 2, Select_projects 3],
        Sent 200 (Some ''text/html'')
          (InnerHTML \<lparr>template = ''<main id=\"sections\">old</main>'',
             injected = Some
               (''<h2>Tools</h2><ul class=\"projects\"><li><div class=\"wrapper\"><span>Widget</span><a class=\"link\" href=\"http://w\"></a></div></li></ul>''
                @ ''<br/>'' @ ''<h2>Papers</h2>'' @ ''<br/>''
                @ ''<h2>Games</h2><ul class=\"projects\"><li><div class=\"wrapper\"><span>Pong</span><a class=\"github\" href=\"http://g\" target=\"_blank\"><a class=\"link\" href=\"http://p\"></a></div></li><li><div class=\"wrapper\"><span>Snake</span></div></li></ul>'')\<rparr>))"
proof -
  note h1 = fixture_public_template and h2 = fixture_public_container
    and h3 = no_faults_never
  have h4: "distinct [2, 0, 1 :: nat]" by simp
  have h5: "set [2, 0, 1 :: nat] = {0..<length (sections_tbl portfolio_store)}"
    by (auto simp: portfolio_store_def)
  have frag: "map (section_fragment portfolio_store) (sections_tbl portfolio_store) =
     [''<h2>Tools</h2><ul class=\"projects\"><li><div class=\"wrapper\"><span>Widget</span><a class=\"link\" href=\"http://w\"></a></div></li></ul>'',
      ''<h2>Papers</h2>'',
      ''<h2>Games</h2><ul class=\"projects\"><li><div class=\"wrapper\"><span>Pong</span><a class=\"github\" href=\"http://g\" target=\"_blank\"><a class=\"link\" href=\"http://p\"></a></div></li><li><div class=\"wrapper\"><span>Snake</span></div></li></ul>'']"
    by (simp add: portfolio_store_def section_fragment_def render_fragment_def heading_def
        project_item_def interp_def truthy_def)
  have joined: "js_join ''<br/>'' (map (section_fragment portfolio_store) (sections_tbl portfolio_store))
     = ''<h2>Tools</h2><ul class=\"projects\"><li><div class=\"wrapper\"><span>Widget</span><a class=\"link\" href=\"http://w\"></a></div></li></ul>''
                @ ''<br/>'' @ ''<h2>Papers</h2>'' @ ''<br/>''
                @ ''<h2>Games</h2><ul class=\"projects\"><li><div class=\"wrapper\"><span>Pong</span><a class=\"github\" href=\"http://g\" target=\"_blank\"><a class=\"link\" href=\"http://p\"></a></div></li><li><div class=\"wrapper\"><span>Snake</span></div></li></ul>''"
    unfolding frag by simp
  have issued: "Select_sections # map (\<lambda>s. Select_projects (sec_id s)) (sections_tbl portfolio_store)
     = [Select_sections, Select_projects 1, Select_projects 2, Select_projects 3]"
    by (simp add: portfolio_store_def)
  have run: "homepage fixture_world no_faults [2, 0, 1] portfolio_store ''public'' =
       ([Select_sections, Select_projects 1, Select_projects 2, Select_projects 3],
        Sent 200 (Some ''text/html'')
          (InnerHTML \<lparr>template = ''<main id=\"sections\">old</main>'',
             injected = Some
               (''<h2>Tools</h2><ul class=\"projects\"><li><div class=\"wrapper\"><span>Widget</span><a class=\"link\" href=\"http://w\"></a></div></li></ul>''
                @ ''<br/>'' @ ''<h2>Papers</h2>'' @ ''<br/>''
                @ ''<h2>Games</h2><ul class=\"projects\"><li><div class=\"wrapper\"><span>Pong</span><a class=\"github\" href=\"http://g\" target=\"_blank\"><a class=\"link\" href=\"http://p\"></a></div></li><li><div class=\"wrapper\"><span>Snake</span></div></li></ul>'')\<rparr>))"
    using homepage_joins_in_section_order [OF h1 h2 h3 h4 h5] unfolding joined issued
    by (rule conjunct1)
  show ?thesis
    using h1 h2 h3 h4 h5 run by (intro conjI)
qed



text \<open>
  C3. A list item is the project's title in a \<^verbatim>\<open>span\<close>, then the \<^verbatim>\<open>github\<close> anchor
  exactly when the repo is truthy (neither \<^verbatim>\<open>null\<close> nor empty), then the \<^verbatim>\<open>link\<close>
  anchor exactly when the url is truthy; with neither it holds the title only. For the one
  section \<^verbatim>\<open>Tools\<close> with the one project \<^verbatim>\<open>Widget\<close> (url \<^verbatim>\<open>http://w\<close>, no repo) the
  markup that the composer sets as the container's content is the string of the scenario.
\<close>

theorem project_item_affordances:
  "project_item p =
     ''<li><div class=\"wrapper\"><span>'' @ interp (proj_title p) @ ''</span>''
     @ (if truthy (proj_repo p)
        then ''<a class=\"github\" href=\"'' @ the (proj_repo p) @ ''\" target=\"_blank\">''
        else [])
     @ (if truthy (proj_url p)
        then ''<a class=\"link\" href=\"'' @ the (proj_url p) @ ''\"></a>''
        else [])
     @ ''</div></li>''
   \<and> (\<not> truthy (proj_repo p) \<and> \<not> truthy (proj_url p) \<longrightarrow>
        project_item p =
          ''<li><div class=\"wrapper\"><span>'' @ interp (proj_title p) @ ''</span></div></li>'')
   \<and> truthy (proj_repo p) = (proj_repo p \<noteq> None \<and> proj_repo p \<noteq> Some [])
   \<and> truthy (proj_url p) = (proj_url p \<noteq> None \<and> proj_url p \<noteq> Some [])
   \<and> homepage fixture_world no_faults [0] tools_store ''public'' =
       ([Select_sections, Select_projects 1],
        Sent 200 (Some ''text/html'')
          (InnerHTML \<lparr>template = ''<main id=\"sections\">old</main>'',
             injected = Some ''<h2>Tools</h2><ul class=\"projects\"><li><div class=\"wrapper\"><span>Widget</span><a class=\"link\" href=\"http://w\"></a></div></li></ul>''\<rparr>))"
proof (intro conjI impI)
  show "project_item p =
     ''<li><div class=\"wrapper\"><span>'' @ interp (proj_title p) @ ''</span>''
     @ (if truthy (proj_repo p)
        then ''<a class=\"github\" href=\"'' @ the (proj_repo p) @ ''\" target=\"_blank\">''
        else [])
     @ (if truthy (proj_url p)
        then ''<a class=\"link\" href=\"'' @ the (proj_url p) @ ''\"></a>''
        else [])
     @ ''</div></li>''"
    by (cases "proj_repo p"; cases "proj_url p")
       (simp_all add: project_item_unfold truthy_def interp_def)
  show "project_item p =
          ''<li><div class=\"wrapper\"><span>'' @ interp (proj_title p) @ ''</span></div></li>''"
    if "\<not> truthy (proj_repo p) \<and> \<not> truthy (proj_url p)"
    using that by (simp add: project_item_unfold)
  show "truthy (proj_repo p) = (proj_repo p \<noteq> None \<and> proj_repo p \<noteq> Some [])"
    by (cases "proj_repo p") (simp_all add: truthy_def)
  show "truthy (proj_url p) = (proj_url p \<noteq> None \<and> proj_url p \<noteq> Some [])"
    by (cases "proj_url p") (simp_all add: truthy_def)
  have frag: "map (section_fragment tools_store) (sections_tbl tools_store) =
     [''<h2>Tools</h2><ul class=\"projects\"><li><div class=\"wrapper\"><span>Widget</span><a class=\"link\" href=\"http://w\"></a></div></li></ul>'']"
    by (simp add: tools_store_def section_fragment_def render_fragment_def heading_def
        project_item_def interp_def truthy_def)
  have secs: "sections_tbl tools_store = [\<lparr>sec_id = 1, sec_title = Some ''Tools''\<rparr>]"
    by (simp add: tools_store_def)
  have order: "set [0 :: nat] = {0..<length (sections_tbl tools_store)}"
    by (simp add: secs)
  have joined: "js_join ''<br/>'' (map (section_fragment tools_store) (sections_tbl tools_store))
     = ''<h2>Tools</h2><ul class=\"projects\"><li><div class=\"wrapper\"><span>Widget</span><a class=\"link\" href=\"http://w\"></a></div></li></ul>''"
    unfolding frag by simp
  have issued: "Select_sections # map (\<lambda>s. Select_projects (sec_id s)) (sections_tbl tools_store)
     = [Select_sections, Select_projects 1]"
    by (simp add: secs)
  show "homepage fixture_world no_faults [0] tools_store ''public'' =
       ([Select_sections, Select_projects 1],
        Sent 200 (Some ''text/html'')
          (InnerHTML \<lparr>template = ''<main id=\"sections\">old</main>'',
             injected = Some ''<h2>Tools</h2><ul class=\"projects\"><li><div class=\"wrapper\"><span>Widget</span><a class=\"link\" href=\"http://w\"></a></div></li></ul>''\<rparr>))"
    using homepage_success [OF fixture_public_template fixture_public_container
        no_faults_never order]
    unfolding joined issued .
qed

theorem project_item_affordances_witness:
  "truthy (proj_repo pong) \<and> truthy (proj_url pong)
   \<and> project_item pong =
       ''<li><div class=\"wrapper\"><span>Pong</span><a class=\"github\" href=\"http://g\" target=\"_blank\"><a class=\"link\" href=\"http://p\"></a></div></li>''
   \<and> \<not> truthy (proj_repo snake) \<and> \<not> truthy (proj_url snake)
   \<and> project_item snake = ''<li><div class=\"wrapper\"><span>Snake</span></div></li>''"
proof -
  have r: "truthy (proj_repo pong)" and u: "truthy (proj_url pong)"
    by (simp_all add: truthy_def pong_def)
  have nr: "\<not> truthy (proj_repo snake)" and nu: "\<not> truthy (proj_url snake)"
    by (simp_all add: truthy_def snake_def)
  note both = project_item_affordances [of pong]
  note neither = project_item_affordances [of snake]
  have "project_item pong =
     ''<li><div class=\"wrapper\"><span>'' @ interp (proj_title pong) @ ''</span>''
     @ (if truthy (proj_repo pong)
        then ''<a class=\"github\" href=\"'' @ the (proj_repo pong) @ ''\" target=\"_blank\">''
        else [])
     @ (if truthy (proj_url pong)
        then ''<a class=\"link\" href=\"'' @ the (proj_url pong) @ ''\"></a>''
        else [])
     @ ''</div></li>''"
    using both by (rule conjunct1)
  then have c1: "project_item pong =
       ''<li><div class=\"wrapper\"><span>Pong</span><a class=\"github\" href=\"http://g\" target=\"_blank\"><a class=\"link\" href=\"http://p\"></a></div></li>''"
    unfolding if_P [OF r] if_P [OF u] by (simp add: pong_def interp_def)
  have "project_item snake =
          ''<li><div class=\"wrapper\"><span>'' @ interp (proj_title snake) @ ''</span></div></li>''"
    using neither nr nu by blast
  then have c2: "project_item snake = ''<li><div class=\"wrapper\"><span>Snake</span></div></li>''"
    by (simp add: snake_def interp_def)
  show ?thesis using r u c1 nr nu c2 by (intro conjI)
qed

text \<open>
  C4. Let the hostname be a first label without a dot, followed by nothing or by a dot and
  anything, and let the analytics insert of the request not fail (or not be issued). For
  the labels \<^verbatim>\<open>jessesolomon\<close> and \<^verbatim>\<open>localhost\<close> the request is served from
  \<^verbatim>\<open>public\<close> (the homepage for the root path, the static files otherwise). For any other
  label it is served in the same way from the directory of that name under \<^verbatim>\<open>apps\<close>
  when that directory exists, and answered with 404 and no body when it does not. The
  process does not exit on the insert.
\<close>

theorem tenant_resolution:
  assumes "CHR ''.'' \<notin> set label" and "rest = [] \<or> hd rest = CHR ''.''"
    and "req_hostname req = Some (label @ rest)"
    and "req_ip req = ''::1''
         \<or> \<not> fails (Insert_ignore_analytics
                       (req_ip req @ ''@'' @ (label @ rest) @ req_path req)
                       ((label @ rest) @ req_path req))"
  shows "(label = ''jessesolomon'' \<or> label = ''localhost'' \<longrightarrow>
            fst (snd (snd (serve w fails order st req))) =
              (if req_path req = ''/'' then snd (homepage w fails order st ''public'')
               else Static ''public''))
       \<and> (label \<noteq> ''jessesolomon'' \<and> label \<noteq> ''localhost''
            \<and> existsSync w (path_join w ''apps'' label) \<longrightarrow>
            fst (snd (snd (serve w fails order st req))) =
              (if req_path req = ''/''
               then snd (homepage w fails order st (path_join w ''apps'' label))
               else Static (path_join w ''apps'' label)))
       \<and> (label \<noteq> ''jessesolomon'' \<and> label \<noteq> ''localhost''
            \<and> \<not> existsSync w (path_join w ''apps'' label) \<longrightarrow>
            fst (snd (snd (serve w fails order st req))) = Sent 404 None No_body)
       \<and> snd (snd (snd (serve w fails order st req))) = None"
proof -
  have domain: "hd (js_split CHR ''.'' (label @ rest)) = label"
    using assms(1,2) by (rule hd_js_split)
  have alive: "snd (snd (record_visit fails req (label @ rest) st)) = None"
    using assms(4) by (auto simp: record_visit_cases)
  have sh: "snd (staticHandler w fails order st req False dir) =
              (if req_path req = ''/'' then snd (homepage w fails order st dir) else Static dir)"
    for dir
    unfolding staticHandler_def by (simp only: if_False if_distrib [of snd] snd_conv)
  have out: "fst (snd (snd (serve w fails order st req))) =
     (if label = ''jessesolomon'' \<or> label = ''localhost''
      then (if req_path req = ''/'' then snd (homepage w fails order st ''public'')
            else Static ''public'')
      else if existsSync w (path_join w ''apps'' label)
           then (if req_path req = ''/''
                 then snd (homepage w fails order st (path_join w ''apps'' label))
                 else Static (path_join w ''apps'' label))
           else Sent 404 None No_body)"
    unfolding serve_outcome [OF assms(3)] Let_def domain alive
    by (simp only: sh not_None_eq option.simps simp_thms)
  have exit: "snd (snd (snd (serve w fails order st req))) = None"
    unfolding serve_exit [OF assms(3)] by (rule alive)
  show ?thesis
    unfolding out exit by (intro conjI impI) simp_all
qed

theorem tenant_resolution_witness:
  "CHR ''.'' \<notin> set ''localhost'' \<and> req_hostname own_visit = Some (''localhost'' @ [])
   \<and> req_ip own_visit = ''::1''
   \<and> fst (snd (snd (serve fixture_world no_faults [] tools_store own_visit))) = Static ''public''
   \<and> CHR ''.'' \<notin> set ''blog'' \<and> hd ''.example.com'' = CHR ''.''
   \<and> req_hostname blog_visit = Some (''blog'' @ ''.example.com'')
   \<and> \<not> no_faults (Insert_ignore_analytics
          (req_ip blog_visit @ ''@'' @ (''blog'' @ ''.example.com'') @ req_path blog_visit)
          ((''blog'' @ ''.example.com'') @ req_path blog_visit))
   \<and> existsSync fixture_world (path_join fixture_world ''apps'' ''blog'')
   \<and> fst (snd (snd (serve fixture_world no_faults [] tools_store blog_visit)))
       = Static ''apps/blog''
   \<and> CHR ''.'' \<notin> set ''nosuch''
   \<and> req_hostname stray = Some (''nosuch'' @ ''.example.com'')
   \<and> \<not> no_faults (Insert_ignore_analytics
          (req_ip stray @ ''@'' @ (''nosuch'' @ ''.example.com'') @ req_path stray)
          ((''nosuch'' @ ''.example.com'') @ req_path stray))
   \<and> \<not> existsSync fixture_world (path_join fixture_world ''apps'' ''nosuch'')
   \<and> fst (snd (snd (serve fixture_world no_faults [] tools_store stray)))
       = Sent 404 None No_body"
proof -
  have a1: "CHR ''.'' \<notin> set ''localhost''" by simp
  have a2: "([] :: string) = [] \<or> hd ([] :: string) = CHR ''.''" by simp
  have a3: "req_hostname own_visit = Some (''localhost'' @ [])" by (simp add: own_visit_def)
  have a4: "req_path own_visit \<noteq> ''/''" by (simp add: own_visit_def)
  have a5: "req_ip own_visit = ''::1''" by (simp add: own_visit_def)
  have "fst (snd (snd (serve fixture_world no_faults [] tools_store own_visit))) =
          (if req_path own_visit = ''/''
           then snd (homepage fixture_world no_faults [] tools_store ''public'')
           else Static ''public'')"
    using tenant_resolution [where w = fixture_world and fails = no_faults and order = "[]"
        and st = tools_store, OF a1 a2 a3 disjI1 [OF a5]]
    by blast
  then have a: "fst (snd (snd (serve fixture_world no_faults [] tools_store own_visit)))
      = Static ''public''"
    unfolding if_not_P [OF a4] .
  have b1: "CHR ''.'' \<notin> set ''blog''" by simp
  have b2: "hd ''.example.com'' = CHR ''.''" by simp
  then have b2': "''.example.com'' = [] \<or> hd ''.example.com'' = CHR ''.''" by (rule disjI2)
  have b3: "req_hostname blog_visit = Some (''blog'' @ ''.example.com'')"
    by (simp add: blog_visit_def)
  have b4: "req_path blog_visit \<noteq> ''/''" by (simp add: blog_visit_def)
  have b5: "existsSync fixture_world (path_join fixture_world ''apps'' ''blog'')"
    by (simp add: fixture_world_def)
  have b6: "''blog'' \<noteq> ''jessesolomon'' \<and> ''blog'' \<noteq> ''localhost''" by simp
  have b7: "path_join fixture_world ''apps'' ''blog'' = ''apps/blog''"
    by (simp add: fixture_world_def)
  have b8: "\<not> no_faults (Insert_ignore_analytics
          (req_ip blog_visit @ ''@'' @ (''blog'' @ ''.example.com'') @ req_path blog_visit)
          ((''blog'' @ ''.example.com'') @ req_path blog_visit))"
    using no_faults_never by blast
  have "fst (snd (snd (serve fixture_world no_faults [] tools_store blog_visit))) =
          (if req_path blog_visit = ''/''
           then snd (homepage fixture_world no_faults [] tools_store
                       (path_join fixture_world ''apps'' ''blog''))
           else Static (path_join fixture_world ''apps'' ''blog''))"
    using tenant_resolution [where w = fixture_world and fails = no_faults and order = "[]"
        and st = tools_store, OF b1 b2' b3 disjI2 [OF b8]]
      b5 b6
    by blast
  then have b: "fst (snd (snd (serve fixture_world no_faults [] tools_store blog_visit)))
      = Static ''apps/blog''"
    unfolding if_not_P [OF b4] b7 .
  have c1: "CHR ''.'' \<notin> set ''nosuch''" by simp
  have c3: "req_hostname stray = Some (''nosuch'' @ ''.example.com'')" by (simp add: stray_def)
  have c5: "\<not> existsSync fixture_world (path_join fixture_world ''apps'' ''nosuch'')"
    by (simp add: fixture_world_def)
  have c6: "''nosuch'' \<noteq> ''jessesolomon'' \<and> ''nosuch'' \<noteq> ''localhost''" by simp
  have c8: "\<not> no_faults (Insert_ignore_analytics
          (req_ip stray @ ''@'' @ (''nosuch'' @ ''.example.com'') @ req_path stray)
          ((''nosuch'' @ ''.example.com'') @ req_path stray))"
    using no_faults_never by blast
  have c: "fst (snd (snd (serve fixture_world no_faults [] tools_store stray)))
      = Sent 404 None No_body"
    using tenant_resolution [where w = fixture_world and fails = no_faults and order = "[]"
        and st = tools_store, OF c1 b2' c3 disjI2 [OF c8]]
      c5 c6
    by blast
  show ?thesis
    using a1 a3 a5 a b1 b2 b3 b8 b5 b c1 c3 c8 c5 c by (intro conjI)
qed

text \<open>
  C5. The analytics table has no key, so \<^verbatim>\<open>insert ignore\<close> has nothing to compare a row
  with: the same visit served twice leaves two rows with the same hash.
\<close>

theorem duplicate_visit_stored_twice:
  "analytics_tbl
     (fst (snd (serve fixture_world no_faults [0]
                  (fst (snd (serve fixture_world no_faults [0] tools_store visit))) visit))) =
     [\<lparr>a_hash = ''203.0.113.7@jessesolomon.dev/'', a_url = ''jessesolomon.dev/''\<rparr>,
      \<lparr>a_hash = ''203.0.113.7@jessesolomon.dev/'', a_url = ''jessesolomon.dev/''\<rparr>]"
proof -
  have host: "req_hostname visit = Some ''jessesolomon.dev''" by (simp add: visit_def)
  have first: "fst (snd (record_visit no_faults visit ''jessesolomon.dev'' tools_store)) =
      tools_store\<lparr>analytics_tbl :=
        [\<lparr>a_hash = ''203.0.113.7@jessesolomon.dev/'', a_url = ''jessesolomon.dev/''\<rparr>]\<rparr>"
    by (simp add: record_visit_cases visit_def no_faults_def tools_store_def)
  have second: "analytics_tbl (fst (snd (record_visit no_faults visit ''jessesolomon.dev''
      (tools_store\<lparr>analytics_tbl :=
        [\<lparr>a_hash = ''203.0.113.7@jessesolomon.dev/'', a_url = ''jessesolomon.dev/''\<rparr>]\<rparr>)))) =
     [\<lparr>a_hash = ''203.0.113.7@jessesolomon.dev/'', a_url = ''jessesolomon.dev/''\<rparr>,
      \<lparr>a_hash = ''203.0.113.7@jessesolomon.dev/'', a_url = ''jessesolomon.dev/''\<rparr>]"
    by (simp add: record_visit_cases visit_def no_faults_def)
  show ?thesis
    unfolding serve_store [OF host] first second ..
qed

text \<open>
  C6, as stated, fails twice. A request of the server to itself that arrives with the
  loopback address \<^verbatim>\<open>::ffff:127.0.0.1\<close> is recorded: its insert is issued and its row
  stored. A request from another address that has no \<^verbatim>\<open>Host\<close> header issues no insert:
  line 93 throws on the undefined hostname before the insert is reached.
\<close>

theorem loopback_recorded_hostless_not:
  "req_ip mapped_visit = ''::ffff:127.0.0.1''
   \<and> serve fixture_world no_faults [] tools_store mapped_visit =
       ([Insert_ignore_analytics ''::ffff:127.0.0.1@localhost/style.css'' ''localhost/style.css''],
        tools_store\<lparr>analytics_tbl :=
          [\<lparr>a_hash = ''::ffff:127.0.0.1@localhost/style.css'', a_url = ''localhost/style.css''\<rparr>]\<rparr>,
        Static ''public'', None)
   \<and> req_ip hostless \<noteq> ''::1''
   \<and> serve fixture_world no_faults [] tools_store hostless =
       ([], tools_store, Thrown TypeError, None)"
proof -
  have a: "req_ip mapped_visit = ''::ffff:127.0.0.1''" by (simp add: mapped_visit_def)
  have host: "req_hostname mapped_visit = Some ''localhost''" by (simp add: mapped_visit_def)
  have rv: "record_visit no_faults mapped_visit ''localhost'' tools_store =
       ([Insert_ignore_analytics ''::ffff:127.0.0.1@localhost/style.css'' ''localhost/style.css''],
        tools_store\<lparr>analytics_tbl :=
          [\<lparr>a_hash = ''::ffff:127.0.0.1@localhost/style.css'', a_url = ''localhost/style.css''\<rparr>]\<rparr>,
        None)"
    by (simp add: record_visit_cases mapped_visit_def no_faults_def tools_store_def)
  have d: "hd (js_split CHR ''.'' ''localhost'') = ''localhost''" by simp
  have p: "req_path mapped_visit \<noteq> ''/''" by (simp add: mapped_visit_def)
  have b: "serve fixture_world no_faults [] tools_store mapped_visit =
       ([Insert_ignore_analytics ''::ffff:127.0.0.1@localhost/style.css'' ''localhost/style.css''],
        tools_store\<lparr>analytics_tbl :=
          [\<lparr>a_hash = ''::ffff:127.0.0.1@localhost/style.css'', a_url = ''localhost/style.css''\<rparr>]\<rparr>,
        Static ''public'', None)"
    unfolding serve_unfold [OF host] Let_def d rv using p by (simp add: staticHandler_def)
  have c: "req_ip hostless \<noteq> ''::1''" by (simp add: hostless_def)
  have e: "serve fixture_world no_faults [] tools_store hostless =
       ([], tools_store, Thrown TypeError, None)"
    by (rule serve_hostless) (simp add: hostless_def)
  show ?thesis using a b c e by (intro conjI)
qed

text \<open>
  C6, amended. A request whose address is the string \<^verbatim>\<open>::1\<close> issues no insert into the
  analytics table and leaves the table as it was. A request with a hostname and any other
  address, other forms of the loopback address included, issues exactly one insert, with
  the hash made of address, hostname and path.
\<close>

theorem analytics_policy:
  "(req_ip req = ''::1'' \<longrightarrow>
      filter is_insert (fst (serve w fails order st req)) = []
      \<and> analytics_tbl (fst (snd (serve w fails order st req))) = analytics_tbl st)
   \<and> (req_ip req \<noteq> ''::1'' \<and> req_hostname req = Some hostname \<longrightarrow>
      filter is_insert (fst (serve w fails order st req)) =
        [Insert_ignore_analytics (req_ip req @ ''@'' @ hostname @ req_path req)
           (hostname @ req_path req)])"
proof (intro conjI impI)
  assume own: "req_ip req = ''::1''"
  show "filter is_insert (fst (serve w fails order st req)) = []"
  proof (cases "req_hostname req")
    case None
    then show ?thesis by (simp add: serve_hostless)
  next
    case (Some h)
    show ?thesis unfolding serve_inserts [OF Some] using own by (simp add: record_visit_cases)
  qed
  show "analytics_tbl (fst (snd (serve w fails order st req))) = analytics_tbl st"
  proof (cases "req_hostname req")
    case None
    then show ?thesis by (simp add: serve_hostless)
  next
    case (Some h)
    show ?thesis unfolding serve_store [OF Some] using own by (simp add: record_visit_cases)
  qed
next
  assume other: "req_ip req \<noteq> ''::1'' \<and> req_hostname req = Some hostname"
  then have host: "req_hostname req = Some hostname" by simp
  show "filter is_insert (fst (serve w fails order st req)) =
        [Insert_ignore_analytics (req_ip req @ ''@'' @ hostname @ req_path req)
           (hostname @ req_path req)]"
    unfolding serve_inserts [OF host] using other by (simp add: record_visit_cases)
qed

theorem analytics_policy_witness:
  "req_ip own_visit = ''::1''
   \<and> filter is_insert (fst (serve fixture_world no_faults [] tools_store own_visit)) = []
   \<and> analytics_tbl (fst (snd (serve fixture_world no_faults [] tools_store own_visit))) = []
   \<and> req_ip mapped_visit \<noteq> ''::1'' \<and> req_hostname mapped_visit = Some ''localhost''
   \<and> filter is_insert (fst (serve fixture_world no_faults [] tools_store mapped_visit)) =
        [Insert_ignore_analytics ''::ffff:127.0.0.1@localhost/style.css'' ''localhost/style.css'']"
proof -
  have a1: "req_ip own_visit = ''::1''" by (simp add: own_visit_def)
  have a2: "filter is_insert (fst (serve fixture_world no_faults [] tools_store own_visit)) = []
      \<and> analytics_tbl (fst (snd (serve fixture_world no_faults [] tools_store own_visit)))
          = analytics_tbl tools_store"
    using analytics_policy [of own_visit fixture_world no_faults "[]" tools_store] a1 by blast
  have a3: "analytics_tbl tools_store = []" by (simp add: tools_store_def)
  have b1: "req_ip mapped_visit \<noteq> ''::1''" by (simp add: mapped_visit_def)
  have b2: "req_hostname mapped_visit = Some ''localhost''" by (simp add: mapped_visit_def)
  have "filter is_insert (fst (serve fixture_world no_faults [] tools_store mapped_visit)) =
        [Insert_ignore_analytics
           (req_ip mapped_visit @ ''@'' @ ''localhost'' @ req_path mapped_visit)
           (''localhost'' @ req_path mapped_visit)]"
    using analytics_policy [of mapped_visit fixture_world no_faults "[]" tools_store "''localhost''"]
      b1 b2 by blast
  then have b3: "filter is_insert (fst (serve fixture_world no_faults [] tools_store mapped_visit)) =
        [Insert_ignore_analytics ''::ffff:127.0.0.1@localhost/style.css'' ''localhost/style.css'']"
    by (simp add: mapped_visit_def)
  show ?thesis using a1 a2 a3 b1 b2 b3 by simp
qed

text \<open>
  C7, as stated, fails: a request from another address whose tenant does not exist is
  answered with 404 after its insert into the analytics table has been issued and stored.
\<close>

theorem unresolved_tenant_is_recorded:
  "req_hostname stray = Some ''nosuch.example.com''
   \<and> hd (js_split CHR ''.'' ''nosuch.example.com'') = ''nosuch''
   \<and> \<not> existsSync fixture_world (path_join fixture_world ''apps'' ''nosuch'')
   \<and> serve fixture_world no_faults [] tools_store stray =
       ([Insert_ignore_analytics ''203.0.113.7@nosuch.example.com/'' ''nosuch.example.com/''],
        tools_store\<lparr>analytics_tbl :=
          [\<lparr>a_hash = ''203.0.113.7@nosuch.example.com/'', a_url = ''nosuch.example.com/''\<rparr>]\<rparr>,
        Sent 404 None No_body, None)"
proof -
  have host: "req_hostname stray = Some ''nosuch.example.com''" by (simp add: stray_def)
  have d: "hd (js_split CHR ''.'' ''nosuch.example.com'') = ''nosuch''" by simp
  have e: "\<not> existsSync fixture_world (path_join fixture_world ''apps'' ''nosuch'')"
    by (simp add: fixture_world_def)
  have rv: "record_visit no_faults stray ''nosuch.example.com'' tools_store =
       ([Insert_ignore_analytics ''203.0.113.7@nosuch.example.com/'' ''nosuch.example.com/''],
        tools_store\<lparr>analytics_tbl :=
          [\<lparr>a_hash = ''203.0.113.7@nosuch.example.com/'', a_url = ''nosuch.example.com/''\<rparr>]\<rparr>,
        None)"
    by (simp add: record_visit_cases stray_def no_faults_def tools_store_def)
  have s: "serve fixture_world no_faults [] tools_store stray =
       ([Insert_ignore_analytics ''203.0.113.7@nosuch.example.com/'' ''nosuch.example.com/''],
        tools_store\<lparr>analytics_tbl :=
          [\<lparr>a_hash = ''203.0.113.7@nosuch.example.com/'', a_url = ''nosuch.example.com/''\<rparr>]\<rparr>,
        Sent 404 None No_body, None)"
    unfolding serve_unfold [OF host] Let_def d rv using e by simp
  show ?thesis using host d e s by (intro conjI)
qed

text \<open>
  C7, amended. For a request with a hostname the analytics insert comes before tenant
  resolution: when the address is not \<^verbatim>\<open>::1\<close> it is the first statement issued, whether
  or not the hostname resolves. Such a request whose tenant does not exist is answered with
  404, and the insert (if its address is not \<^verbatim>\<open>::1\<close>) is the only statement it issues.
\<close>

theorem analytics_before_resolution:
  assumes "req_hostname req = Some hostname"
  shows "(req_ip req \<noteq> ''::1'' \<longrightarrow>
      (\<exists>issued. fst (serve w fails order st req) =
         Insert_ignore_analytics (req_ip req @ ''@'' @ hostname @ req_path req)
           (hostname @ req_path req) # issued))
   \<and> (hd (js_split CHR ''.'' hostname) \<noteq> ''jessesolomon''
      \<and> hd (js_split CHR ''.'' hostname) \<noteq> ''localhost''
      \<and> \<not> existsSync w (path_join w ''apps'' (hd (js_split CHR ''.'' hostname))) \<longrightarrow>
      fst (snd (snd (serve w fails order st req))) = Sent 404 None No_body
      \<and> fst (serve w fails order st req) =
          (if req_ip req \<noteq> ''::1''
           then [Insert_ignore_analytics (req_ip req @ ''@'' @ hostname @ req_path req)
                   (hostname @ req_path req)]
           else []))"
proof (intro conjI impI)
  assume "req_ip req \<noteq> ''::1''"
  then have "fst (record_visit fails req hostname st) =
      [Insert_ignore_analytics (req_ip req @ ''@'' @ hostname @ req_path req)
           (hostname @ req_path req)]"
    by (simp add: record_visit_cases)
  with serve_first [OF assms, of w fails order st]
  show "\<exists>issued. fst (serve w fails order st req) =
         Insert_ignore_analytics (req_ip req @ ''@'' @ hostname @ req_path req)
           (hostname @ req_path req) # issued"
    by simp
next
  assume miss: "hd (js_split CHR ''.'' hostname) \<noteq> ''jessesolomon''
      \<and> hd (js_split CHR ''.'' hostname) \<noteq> ''localhost''
      \<and> \<not> existsSync w (path_join w ''apps'' (hd (js_split CHR ''.'' hostname)))"
  show "fst (snd (snd (serve w fails order st req))) = Sent 404 None No_body"
    unfolding serve_outcome [OF assms] Let_def using miss by simp
  show "fst (serve w fails order st req) =
          (if req_ip req \<noteq> ''::1''
           then [Insert_ignore_analytics (req_ip req @ ''@'' @ hostname @ req_path req)
                   (hostname @ req_path req)]
           else [])"
    unfolding serve_unfold [OF assms] Let_def using miss by (simp add: record_visit_cases)
qed

theorem analytics_before_resolution_witness:
  "req_hostname stray = Some ''nosuch.example.com''
   \<and> req_ip stray \<noteq> ''::1''
   \<and> hd (js_split CHR ''.'' ''nosuch.example.com'') \<noteq> ''jessesolomon''
   \<and> hd (js_split CHR ''.'' ''nosuch.example.com'') \<noteq> ''localhost''
   \<and> \<not> existsSync fixture_world
          (path_join fixture_world ''apps'' (hd (js_split CHR ''.'' ''nosuch.example.com'')))
   \<and> fst (snd (snd (serve fixture_world no_faults [] tools_store stray))) = Sent 404 None No_body
   \<and> fst (serve fixture_world no_faults [] tools_store stray) =
       [Insert_ignore_analytics ''203.0.113.7@nosuch.example.com/'' ''nosuch.example.com/'']"
proof -
  have h0: "req_hostname stray = Some ''nosuch.example.com''" by (simp add: stray_def)
  have d: "hd (js_split CHR ''.'' ''nosuch.example.com'') = ''nosuch''" by simp
  have h1: "req_ip stray \<noteq> ''::1''" by (simp add: stray_def)
  have h2: "hd (js_split CHR ''.'' ''nosuch.example.com'') \<noteq> ''jessesolomon''"
    and h3: "hd (js_split CHR ''.'' ''nosuch.example.com'') \<noteq> ''localhost''"
    unfolding d by simp_all
  have h4: "\<not> existsSync fixture_world
          (path_join fixture_world ''apps'' (hd (js_split CHR ''.'' ''nosuch.example.com'')))"
    unfolding d by (simp add: fixture_world_def)
  have "fst (snd (snd (serve fixture_world no_faults [] tools_store stray))) = Sent 404 None No_body
      \<and> fst (serve fixture_world no_faults [] tools_store stray) =
          (if req_ip stray \<noteq> ''::1''
           then [Insert_ignore_analytics
                   (req_ip stray @ ''@'' @ ''nosuch.example.com'' @ req_path stray)
                   (''nosuch.example.com'' @ req_path stray)]
           else [])"
    using analytics_before_resolution [OF h0, of fixture_world no_faults "[]" tools_store]
      h2 h3 h4 by blast
  then have c1: "fst (snd (snd (serve fixture_world no_faults [] tools_store stray)))
      = Sent 404 None No_body"
    and c2: "fst (serve fixture_world no_faults [] tools_store stray) =
       [Insert_ignore_analytics ''203.0.113.7@nosuch.example.com/'' ''nosuch.example.com/'']"
    unfolding if_P [OF h1] by (simp_all add: stray_def)
  show ?thesis using h0 h1 h2 h3 h4 c1 c2 by (intro conjI)
qed

text \<open>
  C8, as stated, fails: with the sections query failing, or with the projects query of a
  section failing, the callback throws and the request gets no response at all.
\<close>

theorem failed_query_gets_no_response:
  "homepage fixture_world sections_down [] tools_store ''public'' =
     ([Select_sections], Uncaught TypeError)
   \<and> homepage fixture_world projects_down [0] tools_store ''public'' =
     ([Select_sections, Select_projects 1], Uncaught TypeError)
   \<and> \<not> responded (snd (homepage fixture_world sections_down [] tools_store ''public''))
   \<and> \<not> responded (snd (homepage fixture_world projects_down [0] tools_store ''public''))"
proof -
  have a: "homepage fixture_world sections_down [] tools_store ''public'' =
     ([Select_sections], Uncaught TypeError)"
    by (rule homepage_sections_failed [OF fixture_public_template]) (simp add: sections_down_def)
  have secs: "sections_tbl tools_store = [\<lparr>sec_id = 1, sec_title = Some ''Tools''\<rparr>]"
    by (simp add: tools_store_def)
  have "homepage fixture_world projects_down [0] tools_store ''public'' =
     (Select_sections # map (\<lambda>s. Select_projects (sec_id s)) (sections_tbl tools_store),
      Uncaught TypeError)"
    by (rule homepage_projects_failed [OF fixture_public_template,
          where s = "\<lparr>sec_id = 1, sec_title = Some ''Tools''\<rparr>"])
       (simp_all add: projects_down_def secs)
  then have b: "homepage fixture_world projects_down [0] tools_store ''public'' =
     ([Select_sections, Select_projects 1], Uncaught TypeError)"
    by (simp add: secs)
  show ?thesis using a b by simp
qed

text \<open>
  C8, amended. If the sections query fails, its callback throws a \<^verbatim>\<open>TypeError\<close> and no
  projects query is issued. If the sections query succeeds and the projects query of some
  section fails, then for every order of the callbacks the callback of a failed query
  throws a \<^verbatim>\<open>TypeError\<close>. In both cases composition stops and the code sends no response
  for the request: neither a server error nor a page without the section.
\<close>

theorem query_failure_stops_composition:
  assumes "readFileSync w (path_join w dir ''index.html'') = Some html"
  shows "(fails Select_sections \<longrightarrow>
            homepage w fails order st dir = ([Select_sections], Uncaught TypeError))
       \<and> (\<not> fails Select_sections
            \<and> (\<exists>s \<in> set (sections_tbl st). fails (Select_projects (sec_id s)))
            \<and> distinct order \<and> set order = {0..<length (sections_tbl st)} \<longrightarrow>
            homepage w fails order st dir =
              (Select_sections # map (\<lambda>s. Select_projects (sec_id s)) (sections_tbl st),
               Uncaught TypeError))
       \<and> \<not> responded (Uncaught TypeError)"
  using homepage_sections_failed [OF assms] homepage_projects_failed [OF assms]
  by (intro conjI impI) auto

theorem query_failure_stops_composition_witness:
  "readFileSync fixture_world (path_join fixture_world ''public'' ''index.html'')
     = Some ''<main id=\"sections\">old</main>''
   \<and> sections_down Select_sections
   \<and> homepage fixture_world sections_down [2, 0, 1] portfolio_store ''public'' =
       ([Select_sections], Uncaught TypeError)
   \<and> \<not> projects_down Select_sections
   \<and> projects_down (Select_projects (sec_id \<lparr>sec_id = 1, sec_title = Some ''Tools''\<rparr>))
   \<and> distinct [2, 0, 1 :: nat]
   \<and> set [2, 0, 1 :: nat] = {0..<length (sections_tbl portfolio_store)}
   \<and> homepage fixture_world projects_down [2, 0, 1] portfolio_store ''public'' =
       ([Select_sections, Select_projects 1, Select_projects 2, Select_projects 3],
        Uncaught TypeError)"
proof -
  note h = fixture_public_template
  have a1: "sections_down Select_sections" by (simp add: sections_down_def)
  have a2: "homepage fixture_world sections_down [2, 0, 1] portfolio_store ''public'' =
       ([Select_sections], Uncaught TypeError)"
    using query_failure_stops_composition [OF h, of sections_down "[2, 0, 1]" portfolio_store] a1
    by blast
  have b1: "\<not> projects_down Select_sections" by (simp add: projects_down_def)
  have b2: "projects_down (Select_projects (sec_id \<lparr>sec_id = 1, sec_title = Some ''Tools''\<rparr>))"
    by (simp add: projects_down_def)
  have b3: "\<lparr>sec_id = 1, sec_title = Some ''Tools''\<rparr> \<in> set (sections_tbl portfolio_store)"
    by (simp add: portfolio_store_def)
  have b4: "distinct [2, 0, 1 :: nat]" by simp
  have b5: "set [2, 0, 1 :: nat] = {0..<length (sections_tbl portfolio_store)}"
    by (auto simp: portfolio_store_def)
  have "homepage fixture_world projects_down [2, 0, 1] portfolio_store ''public'' =
       (Select_sections # map (\<lambda>s. Select_projects (sec_id s)) (sections_tbl portfolio_store),
        Uncaught TypeError)"
    using query_failure_stops_composition [OF h, of projects_down "[2, 0, 1]" portfolio_store]
      b1 b2 b3 b4 b5 by blast
  then have b6: "homepage fixture_world projects_down [2, 0, 1] portfolio_store ''public'' =
       ([Select_sections, Select_projects 1, Select_projects 2, Select_projects 3],
        Uncaught TypeError)"
    by (simp add: portfolio_store_def)
  show ?thesis using h a1 a2 b1 b2 b4 b5 b6 by (intro conjI)
qed

text \<open>
  C9. For a project with a non-empty repo the item holds the opening \<^verbatim>\<open>github\<close> anchor
  tag directly followed by the \<^verbatim>\<open>link\<close> anchor (if the url is truthy) and the closing
  \<^verbatim>\<open>div\<close>: nothing closes the anchor. When no field contains an opening angle bracket,
  the item opens one anchor more than it closes.
\<close>

theorem github_anchor_unclosed:
  assumes "proj_repo p = Some r" and "r \<noteq> []"
  shows "project_item p =
           ''<li><div class=\"wrapper\"><span>'' @ interp (proj_title p) @ ''</span>''
           @ ''<a class=\"github\" href=\"'' @ r @ ''\" target=\"_blank\">''
           @ (if truthy (proj_url p)
              then ''<a class=\"link\" href=\"'' @ the (proj_url p) @ ''\"></a>''
              else [])
           @ ''</div></li>''
         \<and> (plain_project p \<longrightarrow>
              count_sub ''<a '' (project_item p) = (if truthy (proj_url p) then 2 else 1)
              \<and> count_sub ''</a>'' (project_item p) = (if truthy (proj_url p) then 1 else 0))"
proof (intro conjI impI)
  show "project_item p =
           ''<li><div class=\"wrapper\"><span>'' @ interp (proj_title p) @ ''</span>''
           @ ''<a class=\"github\" href=\"'' @ r @ ''\" target=\"_blank\">''
           @ (if truthy (proj_url p)
              then ''<a class=\"link\" href=\"'' @ the (proj_url p) @ ''\"></a>''
              else [])
           @ ''</div></li>''"
    using assms
    by (cases "proj_url p") (simp_all add: project_item_unfold truthy_def interp_def)
next
  assume plain: "plain_project p"
  show "count_sub ''<a '' (project_item p) = (if truthy (proj_url p) then 2 else 1)"
    using assms plain
    by (simp add: project_item_unfold plain_project_def truthy_Some interp_Some count_sub_skip)
  show "count_sub ''</a>'' (project_item p) = (if truthy (proj_url p) then 1 else 0)"
    using assms plain
    by (simp add: project_item_unfold plain_project_def truthy_Some interp_Some count_sub_skip)
qed

theorem github_anchor_unclosed_witness:
  "proj_repo pong = Some ''http://g'' \<and> ''http://g'' \<noteq> [] \<and> plain_project pong
   \<and> project_item pong =
       ''<li><div class=\"wrapper\"><span>Pong</span>''
       @ ''<a class=\"github\" href=\"http://g\" target=\"_blank\">''
       @ ''<a class=\"link\" href=\"http://p\"></a>''
       @ ''</div></li>''
   \<and> count_sub ''<a '' (project_item pong) = 2
   \<and> count_sub ''</a>'' (project_item pong) = 1"
proof -
  have h1: "proj_repo pong = Some ''http://g''" by (simp add: pong_def)
  have h2: "''http://g'' \<noteq> []" by simp
  have h3: "plain_project pong"
    by (simp add: plain_project_def markup_free_def interp_def pong_def)
  have u: "truthy (proj_url pong)" by (simp add: truthy_def pong_def)
  note item = github_anchor_unclosed [OF h1 h2]
  have "project_item pong =
           ''<li><div class=\"wrapper\"><span>'' @ interp (proj_title pong) @ ''</span>''
           @ ''<a class=\"github\" href=\"'' @ ''http://g'' @ ''\" target=\"_blank\">''
           @ (if truthy (proj_url pong)
              then ''<a class=\"link\" href=\"'' @ the (proj_url pong) @ ''\"></a>''
              else [])
           @ ''</div></li>''"
    using item by (rule conjunct1)
  then have c1: "project_item pong =
       ''<li><div class=\"wrapper\"><span>Pong</span>''
       @ ''<a class=\"github\" href=\"http://g\" target=\"_blank\">''
       @ ''<a class=\"link\" href=\"http://p\"></a>''
       @ ''</div></li>''"
    unfolding if_P [OF u] by (simp add: pong_def interp_def)
  have "count_sub ''<a '' (project_item pong) = (if truthy (proj_url pong) then 2 else 1)
              \<and> count_sub ''</a>'' (project_item pong) = (if truthy (proj_url pong) then 1 else 0)"
    using item h3 by blast
  then have c2: "count_sub ''<a '' (project_item pong) = 2"
    and c3: "count_sub ''</a>'' (project_item pong) = 1"
    unfolding if_P [OF u] by simp_all
  show ?thesis using h1 h2 h3 c1 c2 c3 by (intro conjI)
qed

text \<open>
  C10. When the template has no element for \<^verbatim>\<open>#sections\<close> and no query fails, then for
  every order of the callbacks the sections query and one projects query per section are
  issued, and the continuation of \<^verbatim>\<open>Promise.all\<close> throws a \<^verbatim>\<open>TypeError\<close> on the missing
  element: the request gets no response.
\<close>

theorem missing_container_no_response:
  assumes "readFileSync w (path_join w dir ''index.html'') = Some html"
    and "\<not> has_sections w html"
    and "\<forall>q. \<not> fails q"
    and "distinct order" and "set order = {0..<length (sections_tbl st)}"
  shows "homepage w fails order st dir =
           (Select_sections # map (\<lambda>s. Select_projects (sec_id s)) (sections_tbl st),
            Rejected TypeError)
         \<and> \<not> responded (snd (homepage w fails order st dir))"
  using homepage_no_container [OF assms(1,2,3,5)] by simp

theorem missing_container_no_response_witness:
  "readFileSync fixture_world (path_join fixture_world ''apps/blog'' ''index.html'')
     = Some ''<p>blog</p>''
   \<and> \<not> has_sections fixture_world ''<p>blog</p>''
   \<and> (\<forall>q. \<not> no_faults q)
   \<and> distinct [1, 2, 0 :: nat]
   \<and> set [1, 2, 0 :: nat] = {0..<length (sections_tbl portfolio_store)}
   \<and> homepage fixture_world no_faults [1, 2, 0] portfolio_store ''apps/blog'' =
       ([Select_sections, Select_projects 1, Select_projects 2, Select_projects 3],
        Rejected TypeError)
   \<and> \<not> responded (snd (homepage fixture_world no_faults [1, 2, 0] portfolio_store ''apps/blog''))"
proof -
  have h1: "readFileSync fixture_world (path_join fixture_world ''apps/blog'' ''index.html'')
     = Some ''<p>blog</p>''"
    by (simp add: fixture_world_def)
  have h2: "\<not> has_sections fixture_world ''<p>blog</p>''"
    by (simp add: fixture_world_def)
  note h3 = no_faults_never
  have h4: "distinct [1, 2, 0 :: nat]" by simp
  have h5: "set [1, 2, 0 :: nat] = {0..<length (sections_tbl portfolio_store)}"
    by (auto simp: portfolio_store_def)
  have issued: "Select_sections # map (\<lambda>s. Select_projects (sec_id s)) (sections_tbl portfolio_store)
     = [Select_sections, Select_projects 1, Select_projects 2, Select_projects 3]"
    by (simp add: portfolio_store_def)
  note run = missing_container_no_response [OF h1 h2 h3 h4 h5]
  have c1: "homepage fixture_world no_faults [1, 2, 0] portfolio_store ''apps/blog'' =
       ([Select_sections, Select_projects 1, Select_projects 2, Select_projects 3],
        Rejected TypeError)"
    using run unfolding issued by (rule conjunct1)
  have c2: "\<not> responded (snd (homepage fixture_world no_faults [1, 2, 0] portfolio_store ''apps/blog''))"
    using run by (rule conjunct2)
  show ?thesis using h1 h2 h3 h4 h5 c1 c2 by (intro conjI)
qed

end
